theory Spec2Isabelle
  imports Complex_Main "HOL-Library.Monad_Syntax"
begin

section \<open>Python values used by the backend\<close>

text \<open>
  The backend (\<^verbatim>\<open>intel_station_backend.py\<close>) keeps one global dictionary \<^verbatim>\<open>state\<close>
  that a background thread refreshes from several upstream sources.  Upstream payloads
  are whatever \<^verbatim>\<open>json.loads\<close> returns, so they are modelled by a datatype of JSON
  values.  Python floats are idealised as real numbers (no NaN, no infinities, no
  rounding); a JSON object is an association list read with \<open>map_of\<close>.
\<close>

datatype json =
    JNull
  | JBool bool
  | JNum real
  | JStr string
  | JArr "json list"
  | JObj "(string \<times> json) list"

text \<open>Truth value of a Python object, as \<^verbatim>\<open>if x\<close> and \<^verbatim>\<open>x or y\<close> test it.\<close>

fun truthy :: "json \<Rightarrow> bool" where
  "truthy JNull = False"
| "truthy (JBool b) = b"
| "truthy (JNum r) = (r \<noteq> 0)"
| "truthy (JStr s) = (s \<noteq> [])"
| "truthy (JArr xs) = (xs \<noteq> [])"
| "truthy (JObj kvs) = (kvs \<noteq> [])"

text \<open>\<^verbatim>\<open>x or y\<close> when evaluating \<^verbatim>\<open>y\<close> cannot raise.\<close>

definition py_or :: "json \<Rightarrow> json \<Rightarrow> json" where
  "py_or x y = (if truthy x then x else y)"

text \<open>
  \<^verbatim>\<open>d[key]\<close> with a string key: only a dict supports it, and a missing key raises
  KeyError.  \<open>None\<close> stands for the raised exception.
\<close>

fun py_getitem :: "json \<Rightarrow> string \<Rightarrow> json option" where
  "py_getitem (JObj kvs) k = map_of kvs k"
| "py_getitem _ k = None"

text \<open>\<^verbatim>\<open>d.get(key)\<close>: AttributeError unless \<^verbatim>\<open>d\<close> is a dict; a missing key gives None.\<close>

fun py_get :: "json \<Rightarrow> string \<Rightarrow> json option" where
  "py_get (JObj kvs) k = Some (case map_of kvs k of None \<Rightarrow> JNull | Some v \<Rightarrow> v)"
| "py_get _ k = None"

text \<open>\<^verbatim>\<open>s[i]\<close> with a non-negative integer index: lists and strings, IndexError out of range.\<close>

fun py_index :: "json \<Rightarrow> nat \<Rightarrow> json option" where
  "py_index (JArr xs) i = (if i < length xs then Some (xs ! i) else None)"
| "py_index (JStr s) i = (if i < length s then Some (JStr [s ! i]) else None)"
| "py_index _ i = None"

text \<open>\<^verbatim>\<open>x[:50]\<close>: lists and strings can be sliced, anything else raises TypeError.\<close>

fun py_slice50 :: "json \<Rightarrow> json option" where
  "py_slice50 (JArr xs) = Some (JArr (take 50 xs))"
| "py_slice50 (JStr s) = Some (JStr (take 50 s))"
| "py_slice50 _ = None"

text \<open>The elements a \<^verbatim>\<open>for\<close> loop or a comprehension visits; TypeError if not iterable.\<close>

fun py_iter :: "json \<Rightarrow> json list option" where
  "py_iter (JArr xs) = Some xs"
| "py_iter (JStr s) = Some (map (\<lambda>c. JStr [c]) s)"
| "py_iter (JObj kvs) = Some (map (\<lambda>kv. JStr (fst kv)) kvs)"
| "py_iter _ = None"

text \<open>
  \<^verbatim>\<open>float(x)\<close>.  Parsing a string is the work of the Python runtime, not of this
  program: it is the parameter \<open>str_float\<close>, which returns \<open>None\<close> where Python raises
  ValueError.
\<close>

fun py_float :: "(string \<Rightarrow> real option) \<Rightarrow> json \<Rightarrow> real option" where
  "py_float str_float (JNum r) = Some r"
| "py_float str_float (JBool b) = Some (if b then 1 else 0)"
| "py_float str_float (JStr s) = str_float s"
| "py_float str_float _ = None"

text \<open>The numeric value of \<^verbatim>\<open>x\<close> in \<^verbatim>\<open>x * 3.281\<close>; TypeError for non-numbers.\<close>

fun py_num :: "json \<Rightarrow> real option" where
  "py_num (JNum r) = Some r"
| "py_num (JBool b) = Some (if b then 1 else 0)"
| "py_num _ = None"

text \<open>\<^verbatim>\<open>int(x)\<close> of a float truncates towards zero.\<close>

definition py_int :: "real \<Rightarrow> int" where
  "py_int r = (if 0 \<le> r then \<lfloor>r\<rfloor> else \<lceil>r\<rceil>)"

subsection \<open>Strings\<close>

text \<open>Characters that \<^verbatim>\<open>str.strip()\<close> removes (\<^verbatim>\<open>str.isspace\<close>, code points below 256).\<close>

definition is_space :: "char \<Rightarrow> bool" where
  "is_space c = (c \<in> {CHR 0x09, CHR 0x0A, CHR 0x0B, CHR 0x0C, CHR 0x0D,
                       CHR 0x1C, CHR 0x1D, CHR 0x1E, CHR 0x1F, CHR 0x20, CHR 0x85, CHR 0xA0})"

definition strip :: "string \<Rightarrow> string" where
  "strip s = rev (dropWhile is_space (rev (dropWhile is_space s)))"

text \<open>\<^verbatim>\<open>(x).strip()\<close> on a Python object: AttributeError unless it is a string.\<close>

fun py_strip :: "json \<Rightarrow> string option" where
  "py_strip (JStr s) = Some (strip s)"
| "py_strip _ = None"

definition starts_with :: "string \<Rightarrow> string \<Rightarrow> bool" where
  "starts_with p s = (take (length p) s = p)"

text \<open>\<^verbatim>\<open>sub in s\<close> for strings.\<close>

fun substring_in :: "string \<Rightarrow> string \<Rightarrow> bool" where
  "substring_in sub [] = (sub = [])"
| "substring_in sub (c # cs) = (starts_with sub (c # cs) \<or> substring_in sub cs)"

text \<open>
  \<^verbatim>\<open>s.split(sep)\<close> for a non-empty separator (both call sites pass a literal):
  \<open>split_from sep cur s\<close> scans \<open>s\<close> from the left with the reversed current piece
  \<open>cur\<close>.
\<close>

function split_from :: "string \<Rightarrow> string \<Rightarrow> string \<Rightarrow> string list" where
  "split_from sep cur [] = [rev cur]"
| "split_from sep cur (c # cs) =
     (if starts_with sep (c # cs)
      then rev cur # split_from sep [] (drop (length sep - 1) cs)
      else split_from sep (c # cur) cs)"
  by pat_completeness auto
termination
  by (relation "measure (\<lambda>(sep, cur, s). length s)") auto

definition split :: "string \<Rightarrow> string \<Rightarrow> string list" where
  "split s sep = split_from sep [] s"

text \<open>\<^verbatim>\<open>xs[-10:]\<close> and \<^verbatim>\<open>xs[-1] if xs else ''\<close>.\<close>

definition last10 :: "'a list \<Rightarrow> 'a list" where
  "last10 xs = drop (length xs - 10) xs"

definition last_or_empty :: "string list \<Rightarrow> string" where
  "last_or_empty xs = (if xs \<noteq> [] then last xs else [])"

section \<open>Configuration and shared state\<close>

record location =
  loc_lat :: real
  loc_lon :: real
  loc_alt :: real

record node =
  host :: string
  user :: string

record config =
  sdr_node :: node
  epaper_node :: node
  station :: location

definition CONFIG :: config where
  "CONFIG = \<lparr> sdr_node = \<lparr> host = ''192.168.1.192'', user = ''mem'' \<rparr>,
              epaper_node = \<lparr> host = ''192.168.1.220'', user = ''epaper'' \<rparr>,
              station = \<lparr> loc_lat = 294953 / 10000, loc_lon = - (951547 / 10000), loc_alt = 15 \<rparr> \<rparr>"

text \<open>\<^verbatim>\<open>state['iss']\<close>.\<close>

record iss_pos =
  lat :: real
  lon :: real
  alt :: real
  velocity :: real
  visibility :: string
  timestamp :: json

text \<open>One entry of \<^verbatim>\<open>state['aircraft']\<close>.\<close>

record aircraft_rec =
  icao24 :: json
  callsign :: string
  country :: json
  ac_lat :: json
  ac_lon :: json
  alt_m :: json
  alt_ft :: int
  velocity_kt :: int
  heading :: json
  vertical_rate :: json
  on_ground :: json
  squawk :: json

text \<open>The global \<^verbatim>\<open>state\<close>; \<open>last_update\<close> maps a source name to a clock reading.\<close>

record state =
  sdr_status :: string
  sdr_log :: "string list"
  iss :: iss_pos
  iss_crew :: "json list"
  iss_passes :: json
  aircraft :: "aircraft_rec list"
  last_update :: "string \<rightharpoonup> real"

definition initial_state :: state where
  "initial_state =
     \<lparr> sdr_status = ''unknown'',
       sdr_log = [],
       iss = \<lparr> lat = 0, lon = 0, alt = 0, velocity = 0, visibility = [], timestamp = JNum 0 \<rparr>,
       iss_crew = [],
       iss_passes = JArr [],
       aircraft = [],
       last_update = Map.empty \<rparr>"

text \<open>\<^verbatim>\<open>state['last_update'][source] = time.time()\<close>.\<close>

definition stamp :: "string \<Rightarrow> real \<Rightarrow> state \<Rightarrow> state" where
  "stamp source t s = s\<lparr> last_update := (last_update s)(source \<mapsto> t) \<rparr>"


section \<open>The outside world\<close>

text \<open>
  What \<^verbatim>\<open>urlopen\<close> followed by \<^verbatim>\<open>json.loads\<close> gives: an exception (network error,
  timeout, HTTP error, invalid JSON) or the decoded body.
\<close>

datatype http_response = Fetch_error string | Body json

text \<open>
  What \<^verbatim>\<open>subprocess.run\<close> gives: a completed process (return code, stdout, stderr)
  or an exception (TimeoutExpired, OSError) with its text.
\<close>

datatype proc_result = Completed int string string | Raised string

section \<open>ISS tracking\<close>

text \<open>
  \<^verbatim>\<open>update_iss_position\<close>.  \<open>latitude_of\<close> and \<open>longitude_of\<close> are
  \<^verbatim>\<open>float(data['iss_position']['latitude'])\<close> and its sibling.  The three
  assignments to \<^verbatim>\<open>state['iss']\<close> run one after the other inside the \<^verbatim>\<open>try\<close>; an
  exception raised by a later one (a malformed longitude, a missing timestamp) leaves
  the earlier writes in place.  \<open>now\<close> is the reading of \<^verbatim>\<open>time.time()\<close>.
\<close>

definition latitude_of :: "(string \<Rightarrow> real option) \<Rightarrow> json \<Rightarrow> real option" where
  "latitude_of str_float data =
     do { p \<leftarrow> py_getitem data ''iss_position'';
          v \<leftarrow> py_getitem p ''latitude'';
          py_float str_float v }"

definition longitude_of :: "(string \<Rightarrow> real option) \<Rightarrow> json \<Rightarrow> real option" where
  "longitude_of str_float data =
     do { p \<leftarrow> py_getitem data ''iss_position'';
          v \<leftarrow> py_getitem p ''longitude'';
          py_float str_float v }"

definition update_iss_position ::
  "(string \<Rightarrow> real option) \<Rightarrow> http_response \<Rightarrow> real \<Rightarrow> state \<Rightarrow> state" where
  "update_iss_position str_float resp now s =
     (case resp of
        Fetch_error e \<Rightarrow> s
      | Body data \<Rightarrow>
          (case py_getitem data ''message'' of
             None \<Rightarrow> s
           | Some m \<Rightarrow>
               if m = JStr ''success'' then
                 (case latitude_of str_float data of
                    None \<Rightarrow> s
                  | Some la \<Rightarrow>
                      let s1 = s\<lparr> iss := (iss s)\<lparr> lat := la \<rparr> \<rparr> in
                      (case longitude_of str_float data of
                         None \<Rightarrow> s1
                       | Some lo \<Rightarrow>
                           let s2 = s1\<lparr> iss := (iss s1)\<lparr> lon := lo \<rparr> \<rparr> in
                           (case py_getitem data ''timestamp'' of
                              None \<Rightarrow> s2
                            | Some ts \<Rightarrow>
                                stamp ''iss_position'' now
                                  (s2\<lparr> iss := (iss s2)\<lparr> timestamp := ts \<rparr> \<rparr>))))
               else s))"

text \<open>The comprehension \<^verbatim>\<open>[p for p in people if p['craft'] == 'ISS']\<close>.\<close>

fun crew_on_iss :: "json list \<Rightarrow> json list option" where
  "crew_on_iss [] = Some []"
| "crew_on_iss (p # ps) =
     (case py_getitem p ''craft'' of
        None \<Rightarrow> None
      | Some c \<Rightarrow>
          (case crew_on_iss ps of
             None \<Rightarrow> None
           | Some rest \<Rightarrow> Some (if c = JStr ''ISS'' then p # rest else rest)))"

definition update_iss_crew :: "http_response \<Rightarrow> real \<Rightarrow> state \<Rightarrow> state" where
  "update_iss_crew resp now s =
     (case resp of
        Fetch_error e \<Rightarrow> s
      | Body data \<Rightarrow>
          (case py_getitem data ''message'' of
             None \<Rightarrow> s
           | Some m \<Rightarrow>
               if m = JStr ''success'' then
                 (case do { people \<leftarrow> py_getitem data ''people'';
                            ps \<leftarrow> py_iter people;
                            crew_on_iss ps } of
                    None \<Rightarrow> s
                  | Some crew \<Rightarrow> stamp ''iss_crew'' now (s\<lparr> iss_crew := crew \<rparr>))
               else s))"


definition update_iss_passes :: "http_response \<Rightarrow> real \<Rightarrow> state \<Rightarrow> state" where
  "update_iss_passes resp now s =
     (case resp of
        Fetch_error e \<Rightarrow> s
      | Body data \<Rightarrow>
          (case py_getitem data ''message'' of
             None \<Rightarrow> s
           | Some m \<Rightarrow>
               if m = JStr ''success'' then
                 (case py_getitem data ''response'' of
                    None \<Rightarrow> s
                  | Some r \<Rightarrow> stamp ''iss_passes'' now (s\<lparr> iss_passes := r \<rparr>))
               else s))"

text \<open>
  \<^verbatim>\<open>calculate_iss_distance\<close>: the haversine formula between \<^verbatim>\<open>CONFIG['location']\<close>
  and \<^verbatim>\<open>state['iss']\<close>.  The two globals it reads are its arguments; the source's call
  is \<open>calculate_iss_distance ops (station CONFIG) (iss s)\<close>.

  The formula runs in float arithmetic, and it can fail: \<^verbatim>\<open>math.sqrt\<close> raises ValueError
  on a negative argument, which \<^verbatim>\<open>1 - a\<close> is as soon as rounding carries \<^verbatim>\<open>a\<close> above 1.
  So the arithmetic is a parameter: \<open>ops\<close> gives, for each operation of the formula,
  the float result on float arguments (finite floats are real numbers), and the
  function returns \<open>None\<close> where the source raises.  \<open>exact\<close> is arithmetic without
  rounding; \<open>atan2\<close> is \<^verbatim>\<open>math.atan2(y, x)\<close> over the reals.
\<close>

record float_ops =
  f_radians :: "real \<Rightarrow> real"
  f_sin :: "real \<Rightarrow> real"
  f_cos :: "real \<Rightarrow> real"
  f_sqrt :: "real \<Rightarrow> real"
  f_square :: "real \<Rightarrow> real"
  f_add :: "real \<Rightarrow> real \<Rightarrow> real"
  f_sub :: "real \<Rightarrow> real \<Rightarrow> real"
  f_mul :: "real \<Rightarrow> real \<Rightarrow> real"
  f_div :: "real \<Rightarrow> real \<Rightarrow> real"
  f_atan2 :: "real \<Rightarrow> real \<Rightarrow> real"

text \<open>\<^verbatim>\<open>math.sqrt(x)\<close>: ValueError (math domain error) for \<open>x < 0\<close>.\<close>

definition py_sqrt :: "float_ops \<Rightarrow> real \<Rightarrow> real option" where
  "py_sqrt ops x = (if x < 0 then None else Some (f_sqrt ops x))"

definition calculate_iss_distance :: "float_ops \<Rightarrow> location \<Rightarrow> iss_pos \<Rightarrow> real option" where
  "calculate_iss_distance ops here p =
     (let lat1 = f_radians ops (loc_lat here);
          lon1 = f_radians ops (loc_lon here);
          lat2 = f_radians ops (lat p);
          lon2 = f_radians ops (lon p);
          dlat = f_sub ops lat2 lat1;
          dlon = f_sub ops lon2 lon1;
          a = f_add ops (f_square ops (f_sin ops (f_div ops dlat 2)))
                (f_mul ops (f_mul ops (f_cos ops lat1) (f_cos ops lat2))
                   (f_square ops (f_sin ops (f_div ops dlon 2))))
      in do { root_a \<leftarrow> py_sqrt ops a;
              root_b \<leftarrow> py_sqrt ops (f_sub ops 1 a);
              Some (f_mul ops 6371 (f_mul ops 2 (f_atan2 ops root_a root_b))) })"

definition atan2 :: "real \<Rightarrow> real \<Rightarrow> real" where
  "atan2 y x =
     (if 0 < x then arctan (y / x)
      else if x < 0 then (if 0 \<le> y then arctan (y / x) + pi else arctan (y / x) - pi)
      else if 0 < y then pi / 2
      else if y < 0 then - (pi / 2)
      else 0)"

definition exact :: float_ops where
  "exact = \<lparr> f_radians = (\<lambda>x. x * pi / 180), f_sin = sin, f_cos = cos, f_sqrt = sqrt,
              f_square = (\<lambda>x. x\<^sup>2), f_add = (\<lambda>x y. x + y), f_sub = (\<lambda>x y. x - y),
              f_mul = (\<lambda>x y. x * y), f_div = (\<lambda>x y. x / y), f_atan2 = atan2 \<rparr>"

section \<open>SDR node status\<close>

text \<open>
  \<^verbatim>\<open>update_sdr_status\<close>.  \<open>res\<close> is the outcome of the \<^verbatim>\<open>ssh\<close> call.  Parsing the
  process count is \<^verbatim>\<open>int(...)\<close> on a string, the parameter \<open>str_int\<close> (\<open>None\<close> for
  ValueError).  Every exception inside the \<^verbatim>\<open>try\<close> ends in the handler, which sets
  the status to \<^verbatim>\<open>'unreachable'\<close>; a non-zero return code is not an exception and
  skips the whole body.  \<open>classify\<close> is the \<^verbatim>\<open>if\<close>/\<^verbatim>\<open>elif\<close> chain on the last log line.
\<close>

definition classify :: "string \<Rightarrow> string" where
  "classify last_line =
     (if substring_in ''Recording'' last_line then ''recording''
      else if substring_in ''Sleeping'' last_line then ''sleeping''
      else if substring_in ''Starting capture'' last_line then ''armed''
      else if substring_in ''Waiting'' last_line then ''armed''
      else ''running'')"

text \<open>
  \<^verbatim>\<open>parts[0].strip().split('\n') if parts[0].strip() else []\<close> and
  \<^verbatim>\<open>int(parts[1].strip()) if len(parts) > 1 else 0\<close>, on the head and the tail of
  \<^verbatim>\<open>parts\<close>.
\<close>

definition parse_log_lines :: "string \<Rightarrow> string list" where
  "parse_log_lines p0 = (if strip p0 \<noteq> [] then split (strip p0) [CHR 0x0A] else [])"

definition parse_running :: "(string \<Rightarrow> int option) \<Rightarrow> string list \<Rightarrow> int option" where
  "parse_running str_int ps = (case ps of [] \<Rightarrow> Some 0 | p1 # _ \<Rightarrow> str_int (strip p1))"

definition update_sdr_status ::
  "(string \<Rightarrow> int option) \<Rightarrow> proc_result \<Rightarrow> real \<Rightarrow> state \<Rightarrow> state" where
  "update_sdr_status str_int res now s =
     (case res of
        Raised e \<Rightarrow> s\<lparr> sdr_status := ''unreachable'' \<rparr>
      | Completed returncode out err \<Rightarrow>
          if returncode = 0 then
            (case split out ''---SDR_STATUS---'' of
               [] \<Rightarrow> s\<lparr> sdr_status := ''unreachable'' \<rparr>
             | p0 # ps \<Rightarrow>
                 let log_lines = parse_log_lines p0 in
                 (case parse_running str_int ps of
                    None \<Rightarrow> s\<lparr> sdr_status := ''unreachable'' \<rparr>
                  | Some running \<Rightarrow>
                      let s1 = s\<lparr> sdr_log := last10 log_lines \<rparr>;
                          s2 = (if running > 0
                                then s1\<lparr> sdr_status := classify (last_or_empty log_lines) \<rparr>
                                else s1\<lparr> sdr_status := ''offline'' \<rparr>)
                      in stamp ''sdr'' now s2))
          else s)"

section \<open>e-Paper push\<close>

text \<open>
  The two push operations run remote commands through \<^verbatim>\<open>subprocess.run\<close>.  The
  environment \<open>run\<close> gives the outcome of each command line; every operation returns
  the command lines it has run, in order, beside the dictionary it returns to the
  caller (an association list).
\<close>

type_synonym command = "string list"
type_synonym push_result = "(string \<times> json) list"

definition failure :: "string \<Rightarrow> push_result" where
  "failure msg = [(''success'', JBool False), (''error'', JStr msg)]"

definition scp_command :: "string \<Rightarrow> command" where
  "scp_command image_path =
     [''scp'', ''-o'', ''StrictHostKeyChecking=no'', image_path,
      user (epaper_node CONFIG) @ ''@'' @ host (epaper_node CONFIG) @ '':~/incoming/pushed_image.png'']"

definition display_command :: command where
  "display_command =
     [''ssh'', ''-o'', ''StrictHostKeyChecking=no'',
      user (epaper_node CONFIG) @ ''@'' @ host (epaper_node CONFIG),
      ''sudo python3 ~/display_image.py ~/incoming/pushed_image.png'']"

definition push_to_epaper ::
  "(command \<Rightarrow> proc_result) \<Rightarrow> string \<Rightarrow> command list \<times> push_result" where
  "push_to_epaper run image_path =
     (case run (scp_command image_path) of
        Raised e \<Rightarrow> ([scp_command image_path], failure e)
      | Completed returncode out err \<Rightarrow>
          if returncode \<noteq> 0
          then ([scp_command image_path], failure (''SCP failed: '' @ err))
          else
            (case run display_command of
               Raised e \<Rightarrow> ([scp_command image_path, display_command], failure e)
             | Completed returncode' out' err' \<Rightarrow>
                 if returncode' = 0
                 then ([scp_command image_path, display_command],
                       [(''success'', JBool True), (''message'', JStr ''Image pushed to e-Paper'')])
                 else ([scp_command image_path, display_command],
                       failure (''Display failed: '' @ err'))))"

definition list_command :: command where
  "list_command =
     [''ssh'', ''-o'', ''ConnectTimeout=5'', ''-o'', ''StrictHostKeyChecking=no'',
      user (sdr_node CONFIG) @ ''@'' @ host (sdr_node CONFIG),
      ''ls -t ~/noaa_reception/images/*.png 2>/dev/null | head -1'']"

definition local_tmp :: string where
  "local_tmp = ''/tmp/sat_image_latest.png''"

definition download_command :: "string \<Rightarrow> command" where
  "download_command remote_path =
     [''scp'', ''-o'', ''StrictHostKeyChecking=no'',
      user (sdr_node CONFIG) @ ''@'' @ host (sdr_node CONFIG) @ '':'' @ remote_path, local_tmp]"

definition push_satellite_image ::
  "(command \<Rightarrow> proc_result) \<Rightarrow> command list \<times> push_result" where
  "push_satellite_image run =
     (case run list_command of
        Raised e \<Rightarrow> ([list_command], failure e)
      | Completed returncode out err \<Rightarrow>
          if returncode \<noteq> 0 \<or> strip out = []
          then ([list_command], failure ''No satellite images found'')
          else
            (let remote_path = strip out in
             case run (download_command remote_path) of
               Raised e \<Rightarrow> ([list_command, download_command remote_path], failure e)
             | Completed returncode' out' err' \<Rightarrow>
                 (let (cmds, result) = push_to_epaper run local_tmp
                  in ([list_command, download_command remote_path] @ cmds, result))))"

section \<open>Aircraft tracking\<close>

text \<open>\<^verbatim>\<open>s[7] or s[13] or 0\<close>: \<^verbatim>\<open>s[13]\<close> is read only when \<^verbatim>\<open>s[7]\<close> is falsy.\<close>

definition altitude :: "json \<Rightarrow> json option" where
  "altitude s =
     do { baro \<leftarrow> py_index s 7;
          if truthy baro then Some baro
          else do { geo \<leftarrow> py_index s 13; Some (py_or geo (JNum 0)) } }"

text \<open>
  The body of the loop over the state vectors: \<open>None\<close> when it raises, \<open>Some None\<close>
  when the vector has no position and is skipped, \<open>Some (Some r)\<close> for the appended
  record.  The factors are \<^verbatim>\<open>3.281\<close> and \<^verbatim>\<open>1.944\<close>.
\<close>

definition aircraft_of :: "json \<Rightarrow> aircraft_rec option option" where
  "aircraft_of s =
     do { s5 \<leftarrow> py_index s 5;
          if s5 = JNull then Some None
          else do {
            s6 \<leftarrow> py_index s 6;
            if s6 = JNull then Some None
            else do {
              s0 \<leftarrow> py_index s 0;
              s1 \<leftarrow> py_index s 1;
              cs \<leftarrow> py_strip (py_or s1 (JStr []));
              s2 \<leftarrow> py_index s 2;
              am \<leftarrow> altitude s;
              a \<leftarrow> py_num am;
              s9 \<leftarrow> py_index s 9;
              v \<leftarrow> py_num (py_or s9 (JNum 0));
              s10 \<leftarrow> py_index s 10;
              s11 \<leftarrow> py_index s 11;
              s8 \<leftarrow> py_index s 8;
              s14 \<leftarrow> py_index s 14;
              Some (Some \<lparr> icao24 = s0, callsign = cs, country = s2, ac_lat = s6, ac_lon = s5,
                           alt_m = am, alt_ft = py_int (a * (3281 / 1000)),
                           velocity_kt = py_int (v * (1944 / 1000)),
                           heading = py_or s10 (JNum 0), vertical_rate = py_or s11 (JNum 0),
                           on_ground = s8, squawk = s14 \<rparr>) } } }"

text \<open>The loop: the first state vector that raises aborts the whole update.\<close>

fun collect_aircraft :: "json list \<Rightarrow> aircraft_rec list option" where
  "collect_aircraft [] = Some []"
| "collect_aircraft (s # ss) =
     (case aircraft_of s of
        None \<Rightarrow> None
      | Some r \<Rightarrow>
          (case collect_aircraft ss of
             None \<Rightarrow> None
           | Some rest \<Rightarrow> Some (case r of None \<Rightarrow> rest | Some a \<Rightarrow> a # rest)))"

definition update_aircraft :: "http_response \<Rightarrow> real \<Rightarrow> state \<Rightarrow> state" where
  "update_aircraft resp now s =
     (case resp of
        Fetch_error e \<Rightarrow> s
      | Body data \<Rightarrow>
          (case py_get data ''states'' of
             None \<Rightarrow> s
           | Some states \<Rightarrow>
               if truthy states then
                 (case do { first \<leftarrow> py_slice50 states;
                            rows \<leftarrow> py_iter first;
                            collect_aircraft rows } of
                    None \<Rightarrow> s
                  | Some acs \<Rightarrow> stamp ''aircraft'' now (s\<lparr> aircraft := acs \<rparr>))
               else stamp ''aircraft'' now (s\<lparr> aircraft := [] \<rparr>)))"


section \<open>Background updater\<close>




text \<open>
  The states the program can be in: the initial one, and those any update function
  produces from a reachable state, whatever the outside world answers.
\<close>

inductive reachable ::
  "(string \<Rightarrow> real option) \<Rightarrow> (string \<Rightarrow> int option) \<Rightarrow> state \<Rightarrow> bool"
  for str_float :: "string \<Rightarrow> real option" and str_int :: "string \<Rightarrow> int option" where
  reach_init: "reachable str_float str_int initial_state"
| reach_iss_position:
    "reachable str_float str_int s \<Longrightarrow>
     reachable str_float str_int (update_iss_position str_float resp now s)"
| reach_iss_crew:
    "reachable str_float str_int s \<Longrightarrow> reachable str_float str_int (update_iss_crew resp now s)"
| reach_iss_passes:
    "reachable str_float str_int s \<Longrightarrow> reachable str_float str_int (update_iss_passes resp now s)"
| reach_sdr_status:
    "reachable str_float str_int s \<Longrightarrow>
     reachable str_float str_int (update_sdr_status str_int res now s)"
| reach_aircraft:
    "reachable str_float str_int s \<Longrightarrow> reachable str_float str_int (update_aircraft resp now s)"

section \<open>Properties of stored values\<close>


text \<open>\<^verbatim>\<open>isinstance(x, (int, float))\<close> for a decoded JSON number (Booleans apart).\<close>

fun is_number :: "json \<Rightarrow> bool" where
  "is_number (JNum r) = True"
| "is_number _ = False"

section \<open>Sample inputs\<close>

text \<open>
  Concrete answers of the outside world, used to run the model.  \<open>sample_count\<close> is
  \<^verbatim>\<open>int\<close> on the two process counts the samples print.
\<close>

definition sample_count :: "string \<Rightarrow> int option" where
  "sample_count x = (if x = ''1'' then Some 1 else if x = ''0'' then Some 0 else None)"

definition join_lines :: "string list \<Rightarrow> string" where
  "join_lines ls = concat (map (\<lambda>l. l @ [CHR 0x0A]) ls)"

definition sample_log12 :: string where
  "sample_log12 =
     join_lines [''l01'', ''l02'', ''l03'', ''l04'', ''l05'', ''l06'', ''l07'', ''l08'', ''l09'', ''l10'',
                 ''l11'', ''12:00 Recording NOAA 19'']
     @ ''---SDR_STATUS---'' @ [CHR 0x0A] @ ''1'' @ [CHR 0x0A]"


definition scp_refused :: "command \<Rightarrow> proc_result" where
  "scp_refused c = Completed 1 [] ''ssh: connect to host 192.168.1.220 port 22: Connection refused''"

definition all_timeout :: "command \<Rightarrow> proc_result" where
  "all_timeout c = Raised ''timed out after 30 seconds''"

definition sample_image :: string where
  "sample_image = ''/home/mem/noaa_reception/images/NOAA19.png''"

definition download_timeout :: "command \<Rightarrow> proc_result" where
  "download_timeout c =
     (if c = list_command then Completed 0 (sample_image @ [CHR 0x0A]) []
      else if c = download_command sample_image then Raised ''timed out after 30 seconds''
      else Completed 0 [] [])"

definition download_missing :: "command \<Rightarrow> proc_result" where
  "download_missing c =
     (if c = list_command then Completed 0 (sample_image @ [CHR 0x0A]) []
      else if c = download_command sample_image then Completed 1 [] ''scp: No such file or directory''
      else Completed 0 [] [])"

text \<open>An OpenSky state vector with a position, numbered by its first field, and its record.\<close>

definition sample_vector :: "nat \<Rightarrow> json" where
  "sample_vector i =
     JArr [JNum (real i), JStr ''UAL12   '', JStr ''United States'', JNum 1700000000,
           JNum 1700000000, JNum (- 952 / 10), JNum (295 / 10), JNum 1000, JBool False,
           JNum 100, JNum 270, JNull, JNull, JNum 1050, JStr ''1200'', JBool False, JNum 0]"

definition sample_record :: "nat \<Rightarrow> aircraft_rec" where
  "sample_record i =
     \<lparr> icao24 = JNum (real i), callsign = ''UAL12'', country = JStr ''United States'',
       ac_lat = JNum (295 / 10), ac_lon = JNum (- 952 / 10), alt_m = JNum 1000, alt_ft = 3281,
       velocity_kt = 194, heading = JNum 270, vertical_rate = JNum 0, on_ground = JBool False,
       squawk = JStr ''1200'' \<rparr>"


definition opensky :: "json list \<Rightarrow> http_response" where
  "opensky rows = Body (JObj [(''time'', JNum 1700000000), (''states'', JArr rows)])"

text \<open>A state vector whose track field is a string.\<close>

definition odd_vector :: json where
  "odd_vector =
     JArr [JStr ''a0b1c2'', JStr ''N123AB  '', JStr ''United States'', JNum 1700000000,
           JNum 1700000000, JNum (- 952 / 10), JNum (295 / 10), JNum 1000, JBool False,
           JNum 100, JStr ''north'', JNull, JNull, JNum 1050, JStr ''1200'', JBool False, JNum 0]"




definition recording_state :: state where
  "recording_state = update_sdr_status sample_count (Completed 0 sample_log12 []) 100 initial_state"

text \<open>
  Float arithmetic on two inputs.  Each table gives the result CPython computes, in
  IEEE 754 binary64, for the operations that \<^verbatim>\<open>calculate_iss_distance\<close> performs when
  the station of \<open>CONFIG\<close> meets the position (-29.4952998408, 84.8453), and when a
  station at (-82, -180) meets the position (82, 0).  The values are written as exact
  fractions; any other argument is computed without rounding.
\<close>

definition binary64_radians :: "real \<Rightarrow> real" where
  "binary64_radians x =
     (if x = 294953 / 10000 then 2318408497415605 / 4503599627370496
      else if x = - (951547 / 10000) then - (7479410789143785 / 4503599627370496)
      else if x = - (36869124801 / 1250000000) then - (4636816969804129 / 9007199254740992)
      else if x = 848453 / 10000 then 6669064714913095 / 4503599627370496
      else if x = - 82 then - (6445416618514801 / 4503599627370496)
      else if x = - 180 then - (884279719003555 / 281474976710656)
      else if x = 82 then 6445416618514801 / 4503599627370496
      else if x = 0 then 0
      else x * pi / 180)"

definition binary64_sub :: "real \<Rightarrow> real \<Rightarrow> real" where
  "binary64_sub x y =
     (if x = - (4636816969804129 / 9007199254740992) \<and> y = 2318408497415605 / 4503599627370496 then - (2318408491158835 / 2251799813685248)
      else if x = 6669064714913095 / 4503599627370496 \<and> y = - (7479410789143785 / 4503599627370496) then 884279719003555 / 281474976710656
      else if x = 1 \<and> y = 4503599627370497 / 4503599627370496 then - (1 / 4503599627370496)
      else if x = 6445416618514801 / 4503599627370496 \<and> y = - (6445416618514801 / 4503599627370496) then 6445416618514801 / 2251799813685248
      else if x = 0 \<and> y = - (884279719003555 / 281474976710656) then 884279719003555 / 281474976710656
      else x - y)"

definition binary64_div :: "real \<Rightarrow> real \<Rightarrow> real" where
  "binary64_div x y =
     (if x = - (2318408491158835 / 2251799813685248) \<and> y = 2 then - (2318408491158835 / 4503599627370496)
      else if x = 884279719003555 / 281474976710656 \<and> y = 2 then 884279719003555 / 562949953421312
      else if x = 6445416618514801 / 2251799813685248 \<and> y = 2 then 6445416618514801 / 4503599627370496
      else x / y)"

definition binary64_sin :: "real \<Rightarrow> real" where
  "binary64_sin x =
     (if x = - (2318408491158835 / 4503599627370496) then - (8869428045104257 / 18014398509481984)
      else if x = 884279719003555 / 562949953421312 then 1
      else if x = 6445416618514801 / 4503599627370496 then 4459770905381437 / 4503599627370496
      else sin x)"

definition binary64_cos :: "real \<Rightarrow> real" where
  "binary64_cos x =
     (if x = 2318408497415605 / 4503599627370496 then 1959957745976025 / 2251799813685248
      else if x = - (4636816969804129 / 9007199254740992) then 3919915498113119 / 4503599627370496
      else if x = - (6445416618514801 / 4503599627370496) then 2507119702494989 / 18014398509481984
      else if x = 6445416618514801 / 4503599627370496 then 2507119702494989 / 18014398509481984
      else cos x)"

definition binary64_square :: "real \<Rightarrow> real" where
  "binary64_square x =
     (if x = - (8869428045104257 / 18014398509481984) then 8733764139377201 / 36028797018963968
      else if x = 1 then 1
      else if x = 4459770905381437 / 4503599627370496 then 8832737443003841 / 9007199254740992
      else x\<^sup>2)"

definition binary64_mul :: "real \<Rightarrow> real \<Rightarrow> real" where
  "binary64_mul x y =
     (if x = 1959957745976025 / 2251799813685248 \<and> y = 3919915498113119 / 4503599627370496 then 6823758219896693 / 9007199254740992
      else if x = 6823758219896693 / 9007199254740992 \<and> y = 1 then 6823758219896693 / 9007199254740992
      else if x = 2507119702494989 / 18014398509481984 \<and> y = 2507119702494989 / 18014398509481984 then 2791388987794435 / 144115188075855872
      else if x = 2791388987794435 / 144115188075855872 \<and> y = 1 then 2791388987794435 / 144115188075855872
      else x * y)"

definition binary64_add :: "real \<Rightarrow> real \<Rightarrow> real" where
  "binary64_add x y =
     (if x = 8733764139377201 / 36028797018963968 \<and> y = 6823758219896693 / 9007199254740992 then 4503599627370497 / 4503599627370496
      else if x = 8832737443003841 / 9007199254740992 \<and> y = 2791388987794435 / 144115188075855872 then 4503599627370497 / 4503599627370496
      else x + y)"

definition binary64_sqrt :: "real \<Rightarrow> real" where
  "binary64_sqrt x =
     (if x = 4503599627370497 / 4503599627370496 then 1
      else sqrt x)"

definition binary64 :: float_ops where
  "binary64 = \<lparr> f_radians = binary64_radians, f_sin = binary64_sin, f_cos = binary64_cos,
                 f_sqrt = binary64_sqrt, f_square = binary64_square, f_add = binary64_add,
                 f_sub = binary64_sub, f_mul = binary64_mul, f_div = binary64_div,
                 f_atan2 = atan2 \<rparr>"

text \<open>A position two centimetres from the antipode of the station, and an exact antipode.\<close>

definition near_antipode :: iss_pos where
  "near_antipode = (iss initial_state)\<lparr> lat := - (294952998408 / 10000000000), lon := 848453 / 10000 \<rparr>"

definition polar_station :: location where
  "polar_station = \<lparr> loc_lat = - 82, loc_lon = - 180, loc_alt = 0 \<rparr>"

definition polar_antipode :: iss_pos where
  "polar_antipode = (iss initial_state)\<lparr> lat := 82, lon := 0 \<rparr>"





section \<open>The log tail of the SDR node\<close>

lemma split_from_nonempty: "split_from sep cur s \<noteq> []"
  by (induction sep cur s rule: split_from.induct) auto

lemma split_nonempty: "split s sep \<noteq> []"
  by (simp add: split_def split_from_nonempty)

lemma length_last10: "length (last10 xs) \<le> 10"
  by (simp add: last10_def)

lemma sdr_log_update_iss_position:
  "sdr_log (update_iss_position sf resp now s) = sdr_log s"
  by (simp add: update_iss_position_def stamp_def Let_def split: http_response.splits option.splits)

lemma sdr_log_update_iss_crew: "sdr_log (update_iss_crew resp now s) = sdr_log s"
  by (simp add: update_iss_crew_def stamp_def split: http_response.splits option.splits)

lemma sdr_log_update_iss_passes: "sdr_log (update_iss_passes resp now s) = sdr_log s"
  by (simp add: update_iss_passes_def stamp_def split: http_response.splits option.splits)

lemma sdr_log_update_aircraft: "sdr_log (update_aircraft resp now s) = sdr_log s"
  by (simp add: update_aircraft_def stamp_def split: http_response.splits option.splits)

lemma sdr_log_update_sdr_status:
  "sdr_log (update_sdr_status si res now s) = sdr_log s \<or>
   (\<exists>ls. sdr_log (update_sdr_status si res now s) = last10 ls)"
  by (auto simp add: update_sdr_status_def stamp_def Let_def
      split: proc_result.splits list.splits option.splits)

lemma reachable_sdr_log: "reachable sf si s \<Longrightarrow> length (sdr_log s) \<le> 10"
proof (induction rule: reachable.induct)
  case reach_init
  show ?case by (simp add: initial_state_def)
next
  case (reach_sdr_status s res now)
  then show ?case
    using sdr_log_update_sdr_status [of si res now s] length_last10 by auto
qed (simp_all add: sdr_log_update_iss_position sdr_log_update_iss_crew
       sdr_log_update_iss_passes sdr_log_update_aircraft)

lemma sdr_log_success:
  assumes "parse_running si (tl (split out ''---SDR_STATUS---'')) = Some n"
  shows "sdr_log (update_sdr_status si (Completed 0 out err) now s) =
         drop (length (parse_log_lines (hd (split out ''---SDR_STATUS---''))) - 10)
           (parse_log_lines (hd (split out ''---SDR_STATUS---'')))"
  using assms split_nonempty [of out "''---SDR_STATUS---''"]
  by (cases "split out ''---SDR_STATUS---''")
     (simp_all add: update_sdr_status_def stamp_def Let_def last10_def)

text \<open>
  C9.  In every reachable state \<^verbatim>\<open>state['sdr_log']\<close> holds at most 10 lines; and every
  successful \<^verbatim>\<open>update_sdr_status\<close> (return code 0, process count parsed) stores
  exactly the last 10 lines of the parsed log, in their order, newest last.
\<close>

theorem sdr_log_bounded:
  "(reachable sf si s \<longrightarrow> length (sdr_log s) \<le> 10) \<and>
   (parse_running si (tl (split out ''---SDR_STATUS---'')) = Some n \<longrightarrow>
      sdr_log (update_sdr_status si (Completed 0 out err) now s0) =
        drop (length (parse_log_lines (hd (split out ''---SDR_STATUS---''))) - 10)
          (parse_log_lines (hd (split out ''---SDR_STATUS---''))) \<and>
      length (sdr_log (update_sdr_status si (Completed 0 out err) now s0)) \<le> 10)"
  using reachable_sdr_log [of sf si s] sdr_log_success [of si out n err now s0]
  by auto

lemma sample_log12_split:
  "split sample_log12 ''---SDR_STATUS---'' =
     [join_lines [''l01'', ''l02'', ''l03'', ''l04'', ''l05'', ''l06'', ''l07'', ''l08'', ''l09'', ''l10'',
                 ''l11'', ''12:00 Recording NOAA 19''], [CHR 0x0A] @ ''1'' @ [CHR 0x0A]]"
  by (simp add: sample_log12_def join_lines_def split_def starts_with_def)

lemma sample_log12_lines:
  "parse_log_lines (join_lines [''l01'', ''l02'', ''l03'', ''l04'', ''l05'', ''l06'', ''l07'', ''l08'', ''l09'', ''l10'',
                 ''l11'', ''12:00 Recording NOAA 19'']) =
   [''l01'', ''l02'', ''l03'', ''l04'', ''l05'', ''l06'', ''l07'', ''l08'', ''l09'', ''l10'',
                 ''l11'', ''12:00 Recording NOAA 19'']"
  by (simp add: parse_log_lines_def join_lines_def split_def starts_with_def strip_def is_space_def)

theorem sdr_log_bounded_witness:
  "reachable (\<lambda>x. None) sample_count (update_sdr_status sample_count (Completed 0 sample_log12 []) 5 initial_state) \<and>
   length (sdr_log (update_sdr_status sample_count (Completed 0 sample_log12 []) 5 initial_state)) \<le> 10 \<and>
   sdr_log (update_sdr_status sample_count (Completed 0 sample_log12 []) 5 initial_state) =
     [''l03'', ''l04'', ''l05'', ''l06'', ''l07'', ''l08'', ''l09'', ''l10'', ''l11'', ''12:00 Recording NOAA 19'']"
proof -
  let ?s = "update_sdr_status sample_count (Completed 0 sample_log12 []) 5 initial_state"
  have r: "reachable (\<lambda>x. None) sample_count ?s"
    by (rule reach_sdr_status [OF reach_init])
  have p: "parse_running sample_count (tl (split sample_log12 ''---SDR_STATUS---'')) = Some 1"
    by (simp add: sample_log12_split parse_running_def strip_def is_space_def sample_count_def)
  from sdr_log_bounded [where sf = "\<lambda>x. None" and si = sample_count and s = ?s
      and out = sample_log12 and n = 1 and err = "[]" and now = 5 and ?s0.0 = initial_state] r p
  have "length (sdr_log ?s) \<le> 10" and
    "sdr_log ?s = drop (length (parse_log_lines (hd (split sample_log12 ''---SDR_STATUS---''))) - 10)
          (parse_log_lines (hd (split sample_log12 ''---SDR_STATUS---'')))"
    by blast+
  with r show ?thesis by (simp add: sample_log12_split sample_log12_lines)
qed

section \<open>Cadence of the crew manifest\<close>













section \<open>The push pipeline\<close>

lemma scp_not_display: "scp_command p \<noteq> display_command"
  by (simp add: scp_command_def display_command_def)

text \<open>
  C3 (amended).  When the copy step completes with a non-zero return code, or raises
  (timeout, transport error), \<^verbatim>\<open>push_to_epaper\<close> runs the \<^verbatim>\<open>scp\<close> command only, so the
  display trigger is never executed, and it returns \<^verbatim>\<open>{'success': False, 'error': ...}\<close>
  with \<^verbatim>\<open>'SCP failed: '\<close> followed by the remote stderr in the first case and the text
  of the exception in the second.  The returned dictionary has no \<^verbatim>\<open>stage\<close> entry.
\<close>

theorem push_transfer_failure:
  "(run (scp_command p) = Completed rc out err \<and> rc \<noteq> 0 \<longrightarrow>
      push_to_epaper run p =
        ([scp_command p], [(''success'', JBool False), (''error'', JStr (''SCP failed: '' @ err))])) \<and>
   (run (scp_command p) = Raised e \<longrightarrow>
      push_to_epaper run p = ([scp_command p], [(''success'', JBool False), (''error'', JStr e)])) \<and>
   ((\<exists>rc out err. run (scp_command p) = Completed rc out err \<and> rc \<noteq> 0) \<or>
    (\<exists>e. run (scp_command p) = Raised e) \<longrightarrow>
      display_command \<notin> set (fst (push_to_epaper run p)) \<and>
      map_of (snd (push_to_epaper run p)) ''success'' = Some (JBool False) \<and>
      map_of (snd (push_to_epaper run p)) ''stage'' = None)"
  using scp_not_display [of p]
  by (auto simp add: push_to_epaper_def failure_def)

theorem push_transfer_failure_witness:
  "push_to_epaper scp_refused ''/tmp/nis_dashboard.png'' =
     ([scp_command ''/tmp/nis_dashboard.png''],
      [(''success'', JBool False),
       (''error'', JStr ''SCP failed: ssh: connect to host 192.168.1.220 port 22: Connection refused'')]) \<and>
   push_to_epaper all_timeout ''/tmp/nis_dashboard.png'' =
     ([scp_command ''/tmp/nis_dashboard.png''],
      [(''success'', JBool False), (''error'', JStr ''timed out after 30 seconds'')]) \<and>
   display_command \<notin> set (fst (push_to_epaper scp_refused ''/tmp/nis_dashboard.png''))"
proof -
  have a: "scp_refused (scp_command ''/tmp/nis_dashboard.png'') =
      Completed 1 [] ''ssh: connect to host 192.168.1.220 port 22: Connection refused'' \<and> (1::int) \<noteq> 0"
    by (simp add: scp_refused_def)
  have b: "all_timeout (scp_command ''/tmp/nis_dashboard.png'') = Raised ''timed out after 30 seconds''"
    by (simp add: all_timeout_def)
  from push_transfer_failure [where run = scp_refused and p = "''/tmp/nis_dashboard.png''"
      and rc = 1 and out = "[]" and err = "''ssh: connect to host 192.168.1.220 port 22: Connection refused''"] a
  have 1: "push_to_epaper scp_refused ''/tmp/nis_dashboard.png'' =
     ([scp_command ''/tmp/nis_dashboard.png''],
      [(''success'', JBool False),
       (''error'', JStr (''SCP failed: '' @ ''ssh: connect to host 192.168.1.220 port 22: Connection refused''))])"
    and 3: "display_command \<notin> set (fst (push_to_epaper scp_refused ''/tmp/nis_dashboard.png''))"
    by blast+
  from push_transfer_failure [where run = all_timeout and p = "''/tmp/nis_dashboard.png''"
      and e = "''timed out after 30 seconds''"] b
  have 2: "push_to_epaper all_timeout ''/tmp/nis_dashboard.png'' =
     ([scp_command ''/tmp/nis_dashboard.png''],
      [(''success'', JBool False), (''error'', JStr ''timed out after 30 seconds'')])"
    by blast
  from 1 2 3 show ?thesis by simp
qed

text \<open>
  C3 as stated asks for a result tagged \<^verbatim>\<open>stage = transfer\<close>.  With a refused copy the
  trigger is not run and the result is a failure, but it carries no \<^verbatim>\<open>stage\<close> key.
\<close>

theorem push_stage_counterexample:
  "fst (push_to_epaper scp_refused ''/tmp/nis_dashboard.png'') = [scp_command ''/tmp/nis_dashboard.png''] \<and>
   map_of (snd (push_to_epaper scp_refused ''/tmp/nis_dashboard.png'')) ''success'' = Some (JBool False) \<and>
   map_of (snd (push_to_epaper scp_refused ''/tmp/nis_dashboard.png'')) ''stage'' \<noteq> Some (JStr ''transfer'') \<and>
   map_of (snd (push_to_epaper scp_refused ''/tmp/nis_dashboard.png'')) ''stage'' = None"
  by (simp add: push_to_epaper_def scp_refused_def failure_def)

text \<open>
  C6 (amended).  \<^verbatim>\<open>push_satellite_image\<close> returns the failure
  \<^verbatim>\<open>'No satellite images found'\<close> whenever the listing command completes with a
  non-zero return code or with blank output.  When the listing command or the download
  raises (a timeout, say) it returns a failure carrying the text of the exception and
  pushes nothing.  Otherwise, the download having completed with whatever return code,
  it calls \<^verbatim>\<open>push_to_epaper\<close> with the local download path and returns its result.
\<close>

theorem push_satellite_outcomes:
  "(run list_command = Completed rc out err \<and> (rc \<noteq> 0 \<or> strip out = []) \<longrightarrow>
      push_satellite_image run =
        ([list_command], [(''success'', JBool False), (''error'', JStr ''No satellite images found'')])) \<and>
   (run list_command = Raised e \<longrightarrow>
      push_satellite_image run = ([list_command], [(''success'', JBool False), (''error'', JStr e)])) \<and>
   (run list_command = Completed 0 out err \<and> strip out \<noteq> [] \<and>
    run (download_command (strip out)) = Raised e \<longrightarrow>
      push_satellite_image run =
        ([list_command, download_command (strip out)], [(''success'', JBool False), (''error'', JStr e)])) \<and>
   (run list_command = Completed 0 out err \<and> strip out \<noteq> [] \<and>
    run (download_command (strip out)) = Completed rc' out' err' \<longrightarrow>
      push_satellite_image run =
        ([list_command, download_command (strip out)] @ fst (push_to_epaper run local_tmp),
         snd (push_to_epaper run local_tmp)))"
  by (auto simp add: push_satellite_image_def failure_def Let_def split: prod.splits)

lemma strip_sample_image: "strip (sample_image @ [CHR 0x0A]) = sample_image"
  by (simp add: strip_def sample_image_def is_space_def)

lemma sample_image_nonempty: "sample_image \<noteq> []"
  by (simp add: sample_image_def)

lemma download_not_list: "download_command p \<noteq> list_command"
  by (simp add: download_command_def list_command_def)

lemma scp_local_tmp_not_list: "scp_command p \<noteq> list_command"
  by (simp add: scp_command_def list_command_def)

lemma scp_local_tmp_not_download: "scp_command local_tmp \<noteq> download_command sample_image"
  by (simp add: scp_command_def download_command_def local_tmp_def)

lemma display_not_list: "display_command \<noteq> list_command"
  by (simp add: display_command_def list_command_def)

lemma display_not_download: "display_command \<noteq> download_command p"
  by (simp add: display_command_def download_command_def)

theorem push_satellite_outcomes_witness:
  "push_satellite_image download_missing =
     ([list_command, download_command sample_image, scp_command local_tmp, display_command],
      [(''success'', JBool True), (''message'', JStr ''Image pushed to e-Paper'')]) \<and>
   push_satellite_image download_timeout =
     ([list_command, download_command sample_image],
      [(''success'', JBool False), (''error'', JStr ''timed out after 30 seconds'')]) \<and>
   push_satellite_image all_timeout =
     ([list_command], [(''success'', JBool False), (''error'', JStr ''timed out after 30 seconds'')]) \<and>
   push_satellite_image scp_refused =
     ([list_command], [(''success'', JBool False), (''error'', JStr ''No satellite images found'')])"
proof -
  have l: "download_missing list_command = Completed 0 (sample_image @ [CHR 0x0A]) [] \<and>
      strip (sample_image @ [CHR 0x0A]) \<noteq> [] \<and>
      download_missing (download_command (strip (sample_image @ [CHR 0x0A]))) =
        Completed 1 [] ''scp: No such file or directory''"
    by (simp add: download_missing_def strip_sample_image sample_image_nonempty download_not_list)
  have p: "push_to_epaper download_missing local_tmp =
      ([scp_command local_tmp, display_command],
       [(''success'', JBool True), (''message'', JStr ''Image pushed to e-Paper'')])"
    by (simp add: push_to_epaper_def download_missing_def scp_local_tmp_not_list
        scp_local_tmp_not_download display_not_list display_not_download)
  from push_satellite_outcomes [where run = download_missing and out = "sample_image @ [CHR 0x0A]"
      and err = "[]" and rc' = 1 and out' = "[]" and err' = "''scp: No such file or directory''"] l
  have 1: "push_satellite_image download_missing =
        ([list_command, download_command (strip (sample_image @ [CHR 0x0A]))] @
           fst (push_to_epaper download_missing local_tmp),
         snd (push_to_epaper download_missing local_tmp))"
    by blast
  have l2: "download_timeout list_command = Completed 0 (sample_image @ [CHR 0x0A]) [] \<and>
      strip (sample_image @ [CHR 0x0A]) \<noteq> [] \<and>
      download_timeout (download_command (strip (sample_image @ [CHR 0x0A]))) =
        Raised ''timed out after 30 seconds''"
    by (simp add: download_timeout_def strip_sample_image sample_image_nonempty download_not_list)
  from push_satellite_outcomes [where run = download_timeout and out = "sample_image @ [CHR 0x0A]"
      and err = "[]" and e = "''timed out after 30 seconds''"] l2
  have 2: "push_satellite_image download_timeout =
        ([list_command, download_command (strip (sample_image @ [CHR 0x0A]))],
         [(''success'', JBool False), (''error'', JStr ''timed out after 30 seconds'')])"
    by blast
  have l3: "all_timeout list_command = Raised ''timed out after 30 seconds''"
    by (simp add: all_timeout_def)
  from push_satellite_outcomes [where run = all_timeout and e = "''timed out after 30 seconds''"] l3
  have 3: "push_satellite_image all_timeout =
     ([list_command], [(''success'', JBool False), (''error'', JStr ''timed out after 30 seconds'')])"
    by blast
  have l4: "scp_refused list_command =
      Completed 1 [] ''ssh: connect to host 192.168.1.220 port 22: Connection refused'' \<and>
      ((1::int) \<noteq> 0 \<or> strip [] = [])"
    by (simp add: scp_refused_def)
  from push_satellite_outcomes [where run = scp_refused and rc = 1 and out = "[]"
      and err = "''ssh: connect to host 192.168.1.220 port 22: Connection refused''"] l4
  have 4: "push_satellite_image scp_refused =
     ([list_command], [(''success'', JBool False), (''error'', JStr ''No satellite images found'')])"
    by blast
  from 1 2 3 4 p show ?thesis by (simp add: strip_sample_image)
qed

text \<open>
  C6 as stated fails when a step raises: a download that times out aborts the push (the
  copy to the display is never run), and a listing that times out is reported with the
  text of the exception, not with \<^verbatim>\<open>'No satellite images found'\<close>.
\<close>

theorem push_satellite_counterexample:
  "push_satellite_image download_timeout =
     ([list_command, download_command sample_image],
      [(''success'', JBool False), (''error'', JStr ''timed out after 30 seconds'')]) \<and>
   scp_command local_tmp \<notin> set (fst (push_satellite_image download_timeout)) \<and>
   push_satellite_image all_timeout =
     ([list_command], [(''success'', JBool False), (''error'', JStr ''timed out after 30 seconds'')]) \<and>
   map_of (snd (push_satellite_image all_timeout)) ''error'' \<noteq> Some (JStr ''No satellite images found'')"
  by (simp add: push_satellite_image_def download_timeout_def all_timeout_def failure_def Let_def
      strip_sample_image sample_image_nonempty download_not_list scp_local_tmp_not_list
      scp_local_tmp_not_download)

section \<open>Aircraft records\<close>

lemma py_or_not_null: "y \<noteq> JNull \<Longrightarrow> py_or x y \<noteq> JNull"
  by (cases x) (auto simp add: py_or_def)

lemma aircraft_of_kept:
  assumes "aircraft_of s = Some (Some r)"
  shows "py_index s 5 = Some (ac_lon r) \<and> ac_lon r \<noteq> JNull \<and>
         py_index s 6 = Some (ac_lat r) \<and> ac_lat r \<noteq> JNull \<and>
         altitude s = Some (alt_m r) \<and>
         (\<exists>a. py_num (alt_m r) = Some a \<and> alt_ft r = py_int (a * (3281 / 1000))) \<and>
         (\<exists>s9 v. py_index s 9 = Some s9 \<and> py_num (py_or s9 (JNum 0)) = Some v \<and>
                 velocity_kt r = py_int (v * (1944 / 1000))) \<and>
         (\<exists>s10. py_index s 10 = Some s10 \<and> heading r = py_or s10 (JNum 0)) \<and>
         (\<exists>s11. py_index s 11 = Some s11 \<and> vertical_rate r = py_or s11 (JNum 0)) \<and>
         (\<exists>s1. py_index s 1 = Some s1 \<and> py_strip (py_or s1 (JStr [])) = Some (callsign r))"
  using assms
  by (auto simp add: aircraft_of_def split: bind_splits if_splits)


lemma collect_aircraft_mem:
  "collect_aircraft rows = Some acs \<Longrightarrow> r \<in> set acs \<Longrightarrow>
   \<exists>s \<in> set rows. aircraft_of s = Some (Some r)"
proof (induction rows arbitrary: acs)
  case Nil
  then show ?case by simp
next
  case (Cons s rows)
  then show ?case
    by (fastforce split: option.splits)
qed




lemma update_aircraft_array:
  assumes "py_get data ''states'' = Some (JArr rows)"
  shows "update_aircraft (Body data) now s =
         (case collect_aircraft (take 50 rows) of
            None \<Rightarrow> s
          | Some acs \<Rightarrow> stamp ''aircraft'' now (s\<lparr> aircraft := acs \<rparr>))"
  using assms by (cases "rows = []") (simp_all add: update_aircraft_def)


lemma aircraft_of_sample: "aircraft_of (sample_vector i) = Some (Some (sample_record i))"
  by (simp add: aircraft_of_def sample_vector_def sample_record_def altitude_def py_or_def
      strip_def is_space_def py_int_def)




lemma py_get_opensky: "py_get (JObj [(''time'', JNum 1700000000), (''states'', JArr rows)]) ''states'' = Some (JArr rows)"
  by simp




section \<open>Fields of a stored aircraft record\<close>

lemma dropWhile_fixed: "xs = [] \<or> \<not> P (hd xs) \<Longrightarrow> dropWhile P xs = xs"
  by (cases xs) auto

lemma dropWhile_head: "dropWhile P xs = [] \<or> \<not> P (hd (dropWhile P xs))"
  using hd_dropWhile [of P xs] by blast

lemma trim_right_head:
  assumes "ys = [] \<or> \<not> P (hd ys)"
  shows "rev (dropWhile P (rev ys)) = [] \<or> \<not> P (hd (rev (dropWhile P (rev ys))))"
proof (cases ys)
  case Nil
  then show ?thesis by simp
next
  case (Cons y ys')
  with assms have "\<not> P y" by simp
  then have "\<exists>zs. dropWhile P (rev ys' @ [y]) = zs @ [y]"
    by (simp add: dropWhile_append)
  then obtain zs where "dropWhile P (rev ys) = zs @ [y]"
    using Cons by auto
  with \<open>\<not> P y\<close> show ?thesis by simp
qed

lemma strip_strip: "strip (strip x) = strip x"
proof -
  let ?ys = "dropWhile is_space x"
  let ?t = "rev (dropWhile is_space (rev ?ys))"
  have "?t = [] \<or> \<not> is_space (hd ?t)"
    by (rule trim_right_head [OF dropWhile_head])
  then have a: "dropWhile is_space ?t = ?t" by (rule dropWhile_fixed)
  have b: "dropWhile is_space (dropWhile is_space (rev ?ys)) = dropWhile is_space (rev ?ys)"
    by (rule dropWhile_fixed [OF dropWhile_head])
  show ?thesis
    unfolding strip_def a by (simp add: b)
qed

lemma py_index_below:
  "py_index s i = Some x \<Longrightarrow> j \<le> i \<Longrightarrow> \<exists>y. py_index s j = Some y"
  by (cases s) (auto split: if_splits)

lemma altitude_or:
  assumes "altitude s = Some a" and "py_index s 13 = Some s13"
  shows "\<exists>s7. py_index s 7 = Some s7 \<and> a = py_or s7 (py_or s13 (JNum 0))"
proof -
  from assms(1) obtain s7 where s7: "py_index s 7 = Some s7"
    by (auto simp add: altitude_def split: bind_splits)
  from assms s7 have "a = py_or s7 (py_or s13 (JNum 0))"
    by (simp add: altitude_def py_or_def split: if_splits)
  with s7 show ?thesis by blast
qed

lemma aircraft_of_fields:
  assumes "aircraft_of row = Some (Some r)"
  shows "\<exists>s1 s7 s13 s10 s11.
           py_index row 1 = Some s1 \<and> py_index row 7 = Some s7 \<and> py_index row 13 = Some s13 \<and>
           py_index row 10 = Some s10 \<and> py_index row 11 = Some s11 \<and>
           py_strip (py_or s1 (JStr [])) = Some (callsign r) \<and>
           alt_m r = py_or s7 (py_or s13 (JNum 0)) \<and>
           heading r = py_or s10 (JNum 0) \<and>
           vertical_rate r = py_or s11 (JNum 0)"
proof -
  from assms obtain s14 where "py_index row 14 = Some s14"
    by (auto simp add: aircraft_of_def split: bind_splits if_splits)
  from py_index_below [OF this, of 13] obtain s13 where s13: "py_index row 13 = Some s13"
    by auto
  from aircraft_of_kept [OF assms] obtain s1 s10 s11 where
    k: "py_index row 1 = Some s1" "py_strip (py_or s1 (JStr [])) = Some (callsign r)"
       "py_index row 10 = Some s10" "heading r = py_or s10 (JNum 0)"
       "py_index row 11 = Some s11" "vertical_rate r = py_or s11 (JNum 0)"
    and al: "altitude row = Some (alt_m r)"
    by blast
  from altitude_or [OF al s13] obtain s7 where
    s7: "py_index row 7 = Some s7" "alt_m r = py_or s7 (py_or s13 (JNum 0))"
    by blast
  from k s7 s13 show ?thesis by blast
qed

lemma py_strip_stripped: "py_strip v = Some c \<Longrightarrow> strip c = c"
  by (cases v) (auto simp add: strip_strip)

lemma py_or_number: "x = JNull \<or> is_number x \<Longrightarrow> is_number y \<Longrightarrow> is_number (py_or x y)"
  by (cases x) (auto simp add: py_or_def)

lemma aircraft_update_aircraft:
  "aircraft (update_aircraft resp now s) = aircraft s \<or>
   (\<exists>rows. collect_aircraft rows = Some (aircraft (update_aircraft resp now s)))"
proof -
  have "aircraft (update_aircraft resp now s) = aircraft s \<or>
        aircraft (update_aircraft resp now s) = [] \<or>
        (\<exists>rows. collect_aircraft rows = Some (aircraft (update_aircraft resp now s)))"
    by (auto simp add: update_aircraft_def stamp_def
        split: http_response.splits option.splits bind_splits)
  moreover have "collect_aircraft [] = Some []" by simp
  ultimately show ?thesis by metis
qed

lemma aircraft_update_iss_position:
  "aircraft (update_iss_position sf resp now s) = aircraft s"
  by (simp add: update_iss_position_def stamp_def Let_def split: http_response.splits option.splits)

lemma aircraft_update_iss_crew: "aircraft (update_iss_crew resp now s) = aircraft s"
  by (simp add: update_iss_crew_def stamp_def split: http_response.splits option.splits)

lemma aircraft_update_iss_passes: "aircraft (update_iss_passes resp now s) = aircraft s"
  by (simp add: update_iss_passes_def stamp_def split: http_response.splits option.splits)

lemma aircraft_update_sdr_status: "aircraft (update_sdr_status si res now s) = aircraft s"
  by (simp add: update_sdr_status_def stamp_def Let_def
      split: proc_result.splits list.splits option.splits)

lemma reachable_aircraft:
  "reachable sf si s \<Longrightarrow> r \<in> set (aircraft s) \<Longrightarrow> \<exists>row. aircraft_of row = Some (Some r)"
proof (induction rule: reachable.induct)
  case reach_init
  then show ?case by (simp add: initial_state_def)
next
  case (reach_aircraft s resp now)
  from aircraft_update_aircraft [of resp now s] show ?case
  proof
    assume "aircraft (update_aircraft resp now s) = aircraft s"
    with reach_aircraft show ?thesis by simp
  next
    assume "\<exists>rows. collect_aircraft rows = Some (aircraft (update_aircraft resp now s))"
    then obtain rows where "collect_aircraft rows = Some (aircraft (update_aircraft resp now s))" ..
    from collect_aircraft_mem [OF this reach_aircraft.prems] show ?thesis by blast
  qed
qed (simp_all add: aircraft_update_iss_position aircraft_update_iss_crew
       aircraft_update_iss_passes aircraft_update_sdr_status)

text \<open>
  C10 (amended).  Every aircraft record in a reachable state was built from an upstream
  state vector \<open>row\<close>, and: \<open>alt_m\<close>, \<open>heading\<close> and \<open>vertical_rate\<close> are never null
  (a null or otherwise falsy upstream value is replaced by 0, \<open>alt_m\<close> being
  \<^verbatim>\<open>s[7] or s[13] or 0\<close>); \<open>alt_m\<close> has a numeric value, of which \<open>alt_ft\<close> is the
  truncated multiple, as \<open>velocity_kt\<close> is of the upstream velocity or 0;
  \<open>callsign\<close> is a stripped string, empty for a null upstream callsign;
  \<open>heading\<close> and \<open>vertical_rate\<close> are numbers whenever the upstream field is a
  number or null.  Any other truthy upstream value is stored as it is.
\<close>

theorem aircraft_record_fields:
  assumes "reachable sf si s" and "r \<in> set (aircraft s)"
  shows "alt_m r \<noteq> JNull \<and> heading r \<noteq> JNull \<and> vertical_rate r \<noteq> JNull \<and>
         (\<exists>a. py_num (alt_m r) = Some a \<and> alt_ft r = py_int (a * (3281 / 1000))) \<and>
         strip (callsign r) = callsign r \<and>
         (\<exists>row s1 s7 s13 s10 s11 s9 v.
            aircraft_of row = Some (Some r) \<and>
            py_index row 1 = Some s1 \<and> py_index row 7 = Some s7 \<and> py_index row 13 = Some s13 \<and>
            py_index row 10 = Some s10 \<and> py_index row 11 = Some s11 \<and>
            alt_m r = py_or s7 (py_or s13 (JNum 0)) \<and>
            heading r = py_or s10 (JNum 0) \<and>
            vertical_rate r = py_or s11 (JNum 0) \<and>
            py_index row 9 = Some s9 \<and> py_num (py_or s9 (JNum 0)) = Some v \<and>
            velocity_kt r = py_int (v * (1944 / 1000)) \<and>
            (s1 = JNull \<longrightarrow> callsign r = []) \<and>
            (s7 = JNull \<and> s13 = JNull \<longrightarrow> alt_m r = JNum 0) \<and>
            (s10 = JNull \<longrightarrow> heading r = JNum 0) \<and>
            (s11 = JNull \<longrightarrow> vertical_rate r = JNum 0) \<and>
            ((s7 = JNull \<or> is_number s7) \<and> (s13 = JNull \<or> is_number s13) \<longrightarrow> is_number (alt_m r)) \<and>
            (s10 = JNull \<or> is_number s10 \<longrightarrow> is_number (heading r)) \<and>
            (s11 = JNull \<or> is_number s11 \<longrightarrow> is_number (vertical_rate r)))"
proof -
  from reachable_aircraft [OF assms] obtain row where row: "aircraft_of row = Some (Some r)" ..
  from aircraft_of_fields [OF row] obtain s1 s7 s13 s10 s11 where
    ix: "py_index row 1 = Some s1" "py_index row 7 = Some s7" "py_index row 13 = Some s13"
      "py_index row 10 = Some s10" "py_index row 11 = Some s11"
    and cs: "py_strip (py_or s1 (JStr [])) = Some (callsign r)"
    and am: "alt_m r = py_or s7 (py_or s13 (JNum 0))"
    and hd: "heading r = py_or s10 (JNum 0)"
    and vr: "vertical_rate r = py_or s11 (JNum 0)"
    by blast
  have nn: "alt_m r \<noteq> JNull \<and> heading r \<noteq> JNull \<and> vertical_rate r \<noteq> JNull"
    unfolding am hd vr by (simp add: py_or_not_null)
  from aircraft_of_kept [OF row]
  have ft: "\<exists>a. py_num (alt_m r) = Some a \<and> alt_ft r = py_int (a * (3281 / 1000))" by blast
  from aircraft_of_kept [OF row] obtain s9 v where
    vk: "py_index row 9 = Some s9" "py_num (py_or s9 (JNum 0)) = Some v"
      "velocity_kt r = py_int (v * (1944 / 1000))"
    by blast
  have st: "strip (callsign r) = callsign r" by (rule py_strip_stripped [OF cs])
  have c0: "s1 = JNull \<longrightarrow> callsign r = []"
    using cs by (auto simp add: py_or_def strip_def)
  have a0: "s7 = JNull \<and> s13 = JNull \<longrightarrow> alt_m r = JNum 0"
    unfolding am by (simp add: py_or_def)
  have h0: "s10 = JNull \<longrightarrow> heading r = JNum 0"
    unfolding hd by (simp add: py_or_def)
  have v0: "s11 = JNull \<longrightarrow> vertical_rate r = JNum 0"
    unfolding vr by (simp add: py_or_def)
  have an: "(s7 = JNull \<or> is_number s7) \<and> (s13 = JNull \<or> is_number s13) \<longrightarrow> is_number (alt_m r)"
    unfolding am by (simp add: py_or_number)
  have hn: "s10 = JNull \<or> is_number s10 \<longrightarrow> is_number (heading r)"
    unfolding hd by (simp add: py_or_number)
  have vn: "s11 = JNull \<or> is_number s11 \<longrightarrow> is_number (vertical_rate r)"
    unfolding vr by (simp add: py_or_number)
  have "\<exists>row s1 s7 s13 s10 s11 s9 v.
            aircraft_of row = Some (Some r) \<and>
            py_index row 1 = Some s1 \<and> py_index row 7 = Some s7 \<and> py_index row 13 = Some s13 \<and>
            py_index row 10 = Some s10 \<and> py_index row 11 = Some s11 \<and>
            alt_m r = py_or s7 (py_or s13 (JNum 0)) \<and>
            heading r = py_or s10 (JNum 0) \<and>
            vertical_rate r = py_or s11 (JNum 0) \<and>
            py_index row 9 = Some s9 \<and> py_num (py_or s9 (JNum 0)) = Some v \<and>
            velocity_kt r = py_int (v * (1944 / 1000)) \<and>
            (s1 = JNull \<longrightarrow> callsign r = []) \<and>
            (s7 = JNull \<and> s13 = JNull \<longrightarrow> alt_m r = JNum 0) \<and>
            (s10 = JNull \<longrightarrow> heading r = JNum 0) \<and>
            (s11 = JNull \<longrightarrow> vertical_rate r = JNum 0) \<and>
            ((s7 = JNull \<or> is_number s7) \<and> (s13 = JNull \<or> is_number s13) \<longrightarrow> is_number (alt_m r)) \<and>
            (s10 = JNull \<or> is_number s10 \<longrightarrow> is_number (heading r)) \<and>
            (s11 = JNull \<or> is_number s11 \<longrightarrow> is_number (vertical_rate r))"
    using row ix am hd vr vk c0 a0 h0 v0 an hn vn by (intro exI conjI)
  with nn ft st show ?thesis by (intro conjI) simp_all
qed

lemma aircraft_of_odd:
  "aircraft_of odd_vector =
     Some (Some \<lparr> icao24 = JStr ''a0b1c2'', callsign = ''N123AB'', country = JStr ''United States'',
       ac_lat = JNum (295 / 10), ac_lon = JNum (- 952 / 10), alt_m = JNum 1000, alt_ft = 3281,
       velocity_kt = 194, heading = JStr ''north'', vertical_rate = JNum 0, on_ground = JBool False,
       squawk = JStr ''1200'' \<rparr>)"
  by (simp add: aircraft_of_def odd_vector_def altitude_def py_or_def strip_def is_space_def py_int_def)

theorem aircraft_record_fields_witness:
  "reachable (\<lambda>x. None) (\<lambda>x. None) (update_aircraft (opensky [sample_vector 7]) 100 initial_state) \<and>
   aircraft (update_aircraft (opensky [sample_vector 7]) 100 initial_state) = [sample_record 7] \<and>
   alt_m (sample_record 7) \<noteq> JNull \<and> heading (sample_record 7) \<noteq> JNull \<and>
   vertical_rate (sample_record 7) \<noteq> JNull \<and>
   (\<exists>a. py_num (alt_m (sample_record 7)) = Some a \<and>
        alt_ft (sample_record 7) = py_int (a * (3281 / 1000))) \<and>
   strip (callsign (sample_record 7)) = callsign (sample_record 7)"
proof -
  let ?s = "update_aircraft (opensky [sample_vector 7]) 100 initial_state"
  have r: "reachable (\<lambda>x. None) (\<lambda>x. None) ?s"
    by (rule reach_aircraft [OF reach_init])
  have c: "collect_aircraft (take 50 [sample_vector 7]) = Some [sample_record 7]"
    by (simp add: aircraft_of_sample)
  have a: "aircraft ?s = [sample_record 7]"
    unfolding opensky_def update_aircraft_array [OF py_get_opensky] c by (simp add: stamp_def)
  then have m: "sample_record 7 \<in> set (aircraft ?s)" by simp
  from aircraft_record_fields [OF r m] r a show ?thesis by blast
qed

text \<open>
  C10 as stated makes every stored \<open>heading\<close> a number.  A state vector whose track
  field is a non-empty string is stored with that string as its heading.
\<close>

theorem aircraft_heading_counterexample:
  "reachable (\<lambda>x. None) (\<lambda>x. None) (update_aircraft (opensky [odd_vector]) 100 initial_state) \<and>
   map heading (aircraft (update_aircraft (opensky [odd_vector]) 100 initial_state)) = [JStr ''north''] \<and>
   \<not> is_number (JStr ''north'')"
proof -
  let ?s = "update_aircraft (opensky [odd_vector]) 100 initial_state"
  have r: "reachable (\<lambda>x. None) (\<lambda>x. None) ?s"
    by (rule reach_aircraft [OF reach_init])
  have "map heading (aircraft ?s) = [JStr ''north'']"
    unfolding opensky_def update_aircraft_array [OF py_get_opensky]
    by (simp add: aircraft_of_odd stamp_def)
  with r show ?thesis by simp
qed

section \<open>Range of the orbital position\<close>















section \<open>Failed fetches\<close>





lemma sdr_raised: "update_sdr_status si (Raised e) now s = s\<lparr> sdr_status := ''unreachable'' \<rparr>"
  by (simp add: update_sdr_status_def)

lemma sdr_nonzero: "rc \<noteq> 0 \<Longrightarrow> update_sdr_status si (Completed rc out err) now s = s"
  by (simp add: update_sdr_status_def)



lemma recording_state_status: "sdr_status recording_state = ''recording''"
  by (simp add: recording_state_def update_sdr_status_def sample_log12_split sample_log12_lines
      parse_running_def strip_def is_space_def sample_count_def stamp_def Let_def classify_def
      last_or_empty_def starts_with_def)














section \<open>Classification of the device status\<close>

text \<open>
  What \<^verbatim>\<open>update_sdr_status\<close> makes of each outcome of the remote command: an exception
  gives \<^verbatim>\<open>'unreachable'\<close>; a non-zero return code changes nothing; return code 0 with a
  parsed count \<open>n\<close> gives \<^verbatim>\<open>'offline'\<close> for \<open>n \<le> 0\<close> and otherwise the class of the last
  log line, in the order Recording, Sleeping, Starting capture, Waiting, else running.
\<close>

lemma sdr_status_classification:
  "update_sdr_status si (Raised e) now s = s\<lparr> sdr_status := ''unreachable'' \<rparr> \<and>
   (rc \<noteq> 0 \<longrightarrow> update_sdr_status si (Completed rc out err) now s = s) \<and>
   (parse_running si (tl (split out ''---SDR_STATUS---'')) = Some n \<longrightarrow>
      sdr_status (update_sdr_status si (Completed 0 out err) now s) =
        (if n > 0
         then (let last_line = last_or_empty (parse_log_lines (hd (split out ''---SDR_STATUS---'')))
               in if substring_in ''Recording'' last_line then ''recording''
                  else if substring_in ''Sleeping'' last_line then ''sleeping''
                  else if substring_in ''Starting capture'' last_line
                          \<or> substring_in ''Waiting'' last_line then ''armed''
                  else ''running'')
         else ''offline'') \<and>
      last_update (update_sdr_status si (Completed 0 out err) now s) = (last_update s)(''sdr'' \<mapsto> now))"
proof -
  have "parse_running si (tl (split out ''---SDR_STATUS---'')) = Some n \<longrightarrow>
      sdr_status (update_sdr_status si (Completed 0 out err) now s) =
        (if n > 0
         then classify (last_or_empty (parse_log_lines (hd (split out ''---SDR_STATUS---''))))
         else ''offline'') \<and>
      last_update (update_sdr_status si (Completed 0 out err) now s) = (last_update s)(''sdr'' \<mapsto> now)"
    using split_nonempty [of out "''---SDR_STATUS---''"]
    by (cases "split out ''---SDR_STATUS---''")
       (simp_all add: update_sdr_status_def stamp_def Let_def)
  then show ?thesis
    using sdr_raised [of si e now s] sdr_nonzero [of rc si out err now s]
    by (simp add: classify_def Let_def)
qed

text \<open>
  C2.  The claim asks for \<^verbatim>\<open>'unreachable'\<close> when the remote command exits non-zero.  When
  \<^verbatim>\<open>ssh\<close> cannot reach the node it exits with 255, and the code then leaves the status
  of the last good fetch in place: here it stays \<^verbatim>\<open>'recording'\<close>.
\<close>

theorem sdr_nonzero_exit_keeps_status:
  "sdr_status recording_state = ''recording'' \<and>
   update_sdr_status sample_count
     (Completed 255 [] ''ssh: connect to host 192.168.1.192 port 22: No route to host'') 700
     recording_state = recording_state \<and>
   sdr_status (update_sdr_status sample_count
     (Completed 255 [] ''ssh: connect to host 192.168.1.192 port 22: No route to host'') 700
     recording_state) \<noteq> ''unreachable''"
  by (simp add: sdr_nonzero recording_state_status)

section \<open>Great-circle distance\<close>

lemma sum_below_12:
  "(\<Sum>m<12. g m) = g 0 + g 1 + g 2 + g 3 + g 4 + g 5 + g 6 + g 7 + g 8 + g 9 + g 10 + g (11::nat)"
  for g :: "nat \<Rightarrow> real"
  by (simp add: eval_nat_numeral)

lemma cos_poly12:
  "(\<Sum>m<12. cos_coeff m * (x::real) ^ m) =
     1 - x\<^sup>2 / 2 + x ^ 4 / 24 - x ^ 6 / 720 + x ^ 8 / 40320 - x ^ 10 / 3628800"
  unfolding sum_below_12
  by (simp add: cos_coeff_def fact_numeral)

lemma cos_bounds12:
  assumes "0 < (x::real)"
  shows "\<bar>cos x - (1 - x\<^sup>2 / 2 + x ^ 4 / 24 - x ^ 6 / 720 + x ^ 8 / 40320 - x ^ 10 / 3628800)\<bar>
           \<le> x ^ 12 / 479001600"
proof -
  from Maclaurin_cos_expansion2 [of x 12] assms obtain t where
    t: "cos x = (\<Sum>m<12. cos_coeff m * x ^ m) + (cos (t + 1 / 2 * real 12 * pi) / fact 12) * x ^ 12"
    by auto
  have f: "fact 12 = (479001600 :: real)"
    by (simp add: eval_nat_numeral)
  have "\<bar>cos (t + 1 / 2 * real 12 * pi) / fact 12 * x ^ 12\<bar> =
        \<bar>cos (t + 1 / 2 * real 12 * pi)\<bar> * (x ^ 12 / 479001600)"
    unfolding f by (simp add: abs_mult)
  also have "\<dots> \<le> 1 * (x ^ 12 / 479001600)"
    by (rule mult_right_mono) (simp_all add: abs_cos_le_one)
  finally have "\<bar>cos (t + 1 / 2 * real 12 * pi) / fact 12 * x ^ 12\<bar> \<le> x ^ 12 / 479001600"
    by simp
  with t show ?thesis
    unfolding cos_poly12 by simp
qed

lemma cos_positive_below: "0 < cos (20015 / 12742 :: real)"
proof -
  let ?x = "20015 / 12742 :: real"
  have "\<bar>cos ?x - (1 - ?x\<^sup>2 / 2 + ?x ^ 4 / 24 - ?x ^ 6 / 720 + ?x ^ 8 / 40320 - ?x ^ 10 / 3628800)\<bar>
           \<le> ?x ^ 12 / 479001600"
    by (rule cos_bounds12) simp
  moreover have "?x ^ 12 / 479001600 <
      1 - ?x\<^sup>2 / 2 + ?x ^ 4 / 24 - ?x ^ 6 / 720 + ?x ^ 8 / 40320 - ?x ^ 10 / 3628800"
    by (simp add: power_divide)
  ultimately show ?thesis by linarith
qed

lemma cos_negative_above: "cos (20016 / 12742 :: real) < 0"
proof -
  let ?x = "20016 / 12742 :: real"
  have "\<bar>cos ?x - (1 - ?x\<^sup>2 / 2 + ?x ^ 4 / 24 - ?x ^ 6 / 720 + ?x ^ 8 / 40320 - ?x ^ 10 / 3628800)\<bar>
           \<le> ?x ^ 12 / 479001600"
    by (rule cos_bounds12) simp
  moreover have "1 - ?x\<^sup>2 / 2 + ?x ^ 4 / 24 - ?x ^ 6 / 720 + ?x ^ 8 / 40320 - ?x ^ 10 / 3628800
      < - (?x ^ 12 / 479001600)"
    by (simp add: power_divide)
  ultimately show ?thesis by linarith
qed

lemma half_circumference: "20015 < 6371 * pi \<and> 6371 * pi < 20016"
proof -
  have lower: "20015 / 12742 < pi / 2"
  proof (rule ccontr)
    assume "\<not> 20015 / 12742 < pi / 2"
    then have ge: "pi / 2 \<le> 20015 / 12742" by simp
    have "(20015 / 12742 :: real) \<le> 2" by simp
    also have "\<dots> \<le> pi" by (rule pi_ge_two)
    finally have le: "(20015 / 12742 :: real) \<le> pi" .
    have "cos (20015 / 12742) \<le> cos (pi / 2)"
      by (rule cos_monotone_0_pi_le [OF _ ge le]) simp
    with cos_positive_below show False by simp
  qed
  have upper: "pi / 2 < 20016 / 12742"
  proof (rule ccontr)
    assume "\<not> pi / 2 < 20016 / 12742"
    then have le: "(20016 / 12742 :: real) \<le> pi / 2" by simp
    have "0 \<le> cos (20016 / 12742 :: real)"
      by (rule cos_ge_zero [OF _ le]) (use pi_gt_zero in linarith)
    with cos_negative_above show False by simp
  qed
  from lower upper show ?thesis by simp
qed

lemma atan2_zero_one: "atan2 0 1 = 0"
  by (simp add: atan2_def)

lemma atan2_one_zero: "atan2 1 0 = pi / 2"
  by (simp add: atan2_def)

lemma sin_half_diff_sq: "(sin (((x::real) - y) / 2))\<^sup>2 = (sin ((y - x) / 2))\<^sup>2"
proof -
  have "(y - x) / 2 = - ((x - y) / 2)" by argo
  then have "sin ((y - x) / 2) = - sin ((x - y) / 2)" by (metis sin_minus)
  then show ?thesis by simp
qed

lemma exact_self:
  "calculate_iss_distance exact \<lparr> loc_lat = a, loc_lon = b, loc_alt = h \<rparr>
     (p\<lparr> lat := a, lon := b \<rparr>) = Some 0"
  by (simp add: calculate_iss_distance_def exact_def py_sqrt_def Let_def atan2_zero_one)

lemma exact_symmetric:
  "calculate_iss_distance exact \<lparr> loc_lat = a, loc_lon = b, loc_alt = h \<rparr> (p\<lparr> lat := c, lon := d \<rparr>) =
   calculate_iss_distance exact \<lparr> loc_lat = c, loc_lon = d, loc_alt = h' \<rparr> (p'\<lparr> lat := a, lon := b \<rparr>)"
proof -
  have "(sin ((c * pi / 180 - a * pi / 180) / 2))\<^sup>2 + cos (a * pi / 180) * cos (c * pi / 180) *
          (sin ((d * pi / 180 - b * pi / 180) / 2))\<^sup>2 =
        (sin ((a * pi / 180 - c * pi / 180) / 2))\<^sup>2 + cos (c * pi / 180) * cos (a * pi / 180) *
          (sin ((b * pi / 180 - d * pi / 180) / 2))\<^sup>2"
    using sin_half_diff_sq [of "c * pi / 180" "a * pi / 180"]
      sin_half_diff_sq [of "d * pi / 180" "b * pi / 180"]
    by (simp add: mult.commute)
  then show ?thesis
    by (simp add: calculate_iss_distance_def exact_def Let_def)
qed

lemma exact_antipode_a:
  assumes "d = b + 180 \<or> d = b - 180"
  shows "(sin (((- a) * pi / 180 - a * pi / 180) / 2))\<^sup>2 + cos (a * pi / 180) * cos ((- a) * pi / 180) *
          (sin ((d * pi / 180 - b * pi / 180) / 2))\<^sup>2 = 1"
proof -
  have 1: "((- a) * pi / 180 - a * pi / 180) / 2 = - (a * pi / 180)"
    by simp
  have 2: "(d * pi / 180 - b * pi / 180) / 2 = pi / 2 \<or> (d * pi / 180 - b * pi / 180) / 2 = - (pi / 2)"
    using assms by (auto simp add: field_simps)
  then have 3: "(sin ((d * pi / 180 - b * pi / 180) / 2))\<^sup>2 = 1"
  proof
    assume e: "(d * pi / 180 - b * pi / 180) / 2 = pi / 2"
    show ?thesis unfolding e by simp
  next
    assume e: "(d * pi / 180 - b * pi / 180) / 2 = - (pi / 2)"
    show ?thesis unfolding e by simp
  qed
  have 4: "cos ((- a) * pi / 180) = cos (a * pi / 180)"
    by simp
  show ?thesis
    unfolding 1 3 4 by (simp add: power2_eq_square [symmetric])
qed

lemma exact_antipode:
  assumes "d = b + 180 \<or> d = b - 180"
  shows "calculate_iss_distance exact \<lparr> loc_lat = a, loc_lon = b, loc_alt = h \<rparr>
           (p\<lparr> lat := - a, lon := d \<rparr>) = Some (6371 * pi)"
  using exact_antipode_a [OF assms, where a = a]
  by (simp add: calculate_iss_distance_def exact_def py_sqrt_def Let_def atan2_one_zero)

text \<open>
  Without rounding the formula does what C8 says: the distance from a place to itself
  is 0, it is the same in both directions, and to the antipode it is \<open>6371 * pi\<close>, between
  20015 and 20016.
\<close>

lemma haversine_exact:
  "calculate_iss_distance exact \<lparr> loc_lat = a, loc_lon = b, loc_alt = h \<rparr>
     (p\<lparr> lat := a, lon := b \<rparr>) = Some 0 \<and>
   calculate_iss_distance exact \<lparr> loc_lat = a, loc_lon = b, loc_alt = h \<rparr> (p\<lparr> lat := c, lon := d \<rparr>) =
     calculate_iss_distance exact \<lparr> loc_lat = c, loc_lon = d, loc_alt = h' \<rparr> (p'\<lparr> lat := a, lon := b \<rparr>) \<and>
   calculate_iss_distance exact \<lparr> loc_lat = a, loc_lon = b, loc_alt = h \<rparr>
     (p\<lparr> lat := - a, lon := b + 180 \<rparr>) = Some (6371 * pi) \<and>
   calculate_iss_distance exact \<lparr> loc_lat = a, loc_lon = b, loc_alt = h \<rparr>
     (p\<lparr> lat := - a, lon := b - 180 \<rparr>) = Some (6371 * pi) \<and>
   20015 < 6371 * pi \<and> 6371 * pi < 20016"
proof -
  have 1: "calculate_iss_distance exact \<lparr> loc_lat = a, loc_lon = b, loc_alt = h \<rparr>
     (p\<lparr> lat := - a, lon := b + 180 \<rparr>) = Some (6371 * pi)"
    by (rule exact_antipode) simp
  have 2: "calculate_iss_distance exact \<lparr> loc_lat = a, loc_lon = b, loc_alt = h \<rparr>
     (p\<lparr> lat := - a, lon := b - 180 \<rparr>) = Some (6371 * pi)"
    by (rule exact_antipode) simp
  have 3: "calculate_iss_distance exact \<lparr> loc_lat = a, loc_lon = b, loc_alt = h \<rparr>
     (p\<lparr> lat := a, lon := b \<rparr>) = Some 0"
    by (rule exact_self)
  have 4: "calculate_iss_distance exact \<lparr> loc_lat = a, loc_lon = b, loc_alt = h \<rparr>
     (p\<lparr> lat := c, lon := d \<rparr>) =
     calculate_iss_distance exact \<lparr> loc_lat = c, loc_lon = d, loc_alt = h' \<rparr> (p'\<lparr> lat := a, lon := b \<rparr>)"
    by (rule exact_symmetric)
  from 1 2 3 4 half_circumference show ?thesis by blast
qed

lemma near_antipode_a:
  "f_add binary64 (f_square binary64 (f_sin binary64 (f_div binary64
       (f_sub binary64 (f_radians binary64 (lat near_antipode))
          (f_radians binary64 (loc_lat (station CONFIG)))) 2)))
     (f_mul binary64 (f_mul binary64 (f_cos binary64 (f_radians binary64 (loc_lat (station CONFIG))))
          (f_cos binary64 (f_radians binary64 (lat near_antipode))))
        (f_square binary64 (f_sin binary64 (f_div binary64
          (f_sub binary64 (f_radians binary64 (lon near_antipode))
             (f_radians binary64 (loc_lon (station CONFIG)))) 2)))) =
   4503599627370497 / 4503599627370496"
  by (simp add: binary64_def near_antipode_def CONFIG_def binary64_radians_def binary64_sub_def
      binary64_div_def binary64_sin_def binary64_cos_def binary64_square_def binary64_mul_def
      binary64_add_def)

lemma polar_antipode_a:
  "f_add binary64 (f_square binary64 (f_sin binary64 (f_div binary64
       (f_sub binary64 (f_radians binary64 (lat polar_antipode))
          (f_radians binary64 (loc_lat polar_station))) 2)))
     (f_mul binary64 (f_mul binary64 (f_cos binary64 (f_radians binary64 (loc_lat polar_station)))
          (f_cos binary64 (f_radians binary64 (lat polar_antipode))))
        (f_square binary64 (f_sin binary64 (f_div binary64
          (f_sub binary64 (f_radians binary64 (lon polar_antipode))
             (f_radians binary64 (loc_lon polar_station))) 2)))) =
   4503599627370497 / 4503599627370496"
  by (simp add: binary64_def polar_antipode_def polar_station_def binary64_radians_def
      binary64_sub_def binary64_div_def binary64_sin_def binary64_cos_def binary64_square_def
      binary64_mul_def binary64_add_def)

lemma one_minus_a: "f_sub binary64 1 (4503599627370497 / 4503599627370496) = - (1 / 4503599627370496)"
  by (simp add: binary64_def binary64_sub_def)

text \<open>
  C8.  The claim asks for a distance of about 20015 km to the antipodal point.  In
  float arithmetic \<^verbatim>\<open>a\<close> comes out as 1.0000000000000002 at and next to some antipodes,
  \<^verbatim>\<open>1 - a\<close> is negative, and \<^verbatim>\<open>math.sqrt(1 - a)\<close> raises ValueError: the function
  returns no distance, for the configured station as for one at (-82, -180).
\<close>

theorem haversine_domain_error:
  "calculate_iss_distance binary64 (station CONFIG) near_antipode = None \<and>
   calculate_iss_distance binary64 polar_station polar_antipode = None"
  unfolding calculate_iss_distance_def Let_def near_antipode_a polar_antipode_a one_minus_a
  by (simp add: py_sqrt_def)

end
